theory Spec2Isabelle
  imports Main
begin

section \<open>JavaScript values used by the form\<close>

text \<open>
  A JavaScript string is a sequence of UTF-16 code units; a code unit is modelled by its
  number. \<open>str\<close> turns an ASCII literal into such a sequence.
\<close>

type_synonym jsstring = "nat list"

definition str :: "string \<Rightarrow> jsstring" where
  "str s = map of_char s"

text \<open>
  The code units that \<open>String.prototype.trim\<close> and \<open>parseInt\<close> strip: the WhiteSpace
  and LineTerminator productions of ECMAScript (TAB, LF, VT, FF, CR, SP, NBSP, the
  remaining members of the Unicode category Zs, LS, PS and the byte order mark).
\<close>

definition is_ws :: "nat \<Rightarrow> bool" where
  "is_ws c = (c \<in> {0x09, 0x0A, 0x0B, 0x0C, 0x0D, 0x20, 0xA0, 0x1680,
                    0x2028, 0x2029, 0x202F, 0x205F, 0x3000, 0xFEFF}
              \<or> (0x2000 \<le> c \<and> c \<le> 0x200A))"

definition trimStart :: "jsstring \<Rightarrow> jsstring" where
  "trimStart s = dropWhile is_ws s"

definition trim :: "jsstring \<Rightarrow> jsstring" where
  "trim s = rev (dropWhile is_ws (rev (dropWhile is_ws s)))"

text \<open>
  \<open>String.prototype.toLowerCase\<close>, code unit by code unit. The mapping is the one of
  Unicode for the code units up to U+00FF (the letters A to Z and the capital letters of
  Latin-1, all of which map 32 places up) and for the Kelvin sign U+212A, which maps to
  the letter k. These are all the code units whose lower case has an ASCII letter alone,
  and the form only asks whether the lower case of its input occurs in a word of ASCII
  letters. The case table of the rest of Unicode is not reproduced: any other code unit
  above U+00FF is left as it is, which keeps it outside ASCII as its lower case is.
\<close>

definition lower_unit :: "nat \<Rightarrow> nat" where
  "lower_unit c =
     (if 0x41 \<le> c \<and> c \<le> 0x5A then c + 0x20
      else if 0xC0 \<le> c \<and> c \<le> 0xDE \<and> c \<noteq> 0xD7 then c + 0x20
      else if c = 0x212A then 0x6B
      else c)"

definition toLowerCase :: "jsstring \<Rightarrow> jsstring" where
  "toLowerCase s = map lower_unit s"

text \<open>\<open>s.includes(sub)\<close>: \<open>sub\<close> occurs in \<open>s\<close> as a contiguous run of code units.\<close>

fun includes_str :: "jsstring \<Rightarrow> jsstring \<Rightarrow> bool" where
  "includes_str [] sub = (sub = [])"
| "includes_str (x # xs) sub = (take (length sub) (x # xs) = sub \<or> includes_str xs sub)"

text \<open>
  A Number as \<open>parseInt\<close> returns it. Numbers are doubles, and a double holds every
  integer up to \<open>2^53\<close> in magnitude. So the Number is \<open>NaN\<close>; or \<open>Num n\<close>, the integer
  \<open>n\<close> itself, of magnitude at most \<open>2^53\<close> (a negative zero is \<open>Num 0\<close>: it compares
  as zero); or \<open>Rounded n\<close>, where the integer read is \<open>n\<close>, beyond \<open>2^53\<close> in magnitude,
  and the Number is a double that stands for it: the nearest one, or the one that the
  implementation reaches after it has replaced digits beyond the twentieth by zeros, or
  an infinity. Which double that is plays no part here; it has the sign of \<open>n\<close> and a
  magnitude of at least \<open>2^53\<close>, so it compares with an integer \<open>k\<close> below \<open>2^53\<close> in
  magnitude as \<open>n\<close> does. The form compares with \<open>0\<close> only. A comparison with \<open>NaN\<close> is
  false.
\<close>

datatype jsnum = NaN | Num int | Rounded int

definition to_number :: "int \<Rightarrow> jsnum" where
  "to_number n = (if \<bar>n\<bar> \<le> 9007199254740992 then Num n else Rounded n)"

fun js_lt :: "jsnum \<Rightarrow> int \<Rightarrow> bool" where
  "js_lt NaN k = False"
| "js_lt (Num n) k = (n < k)"
| "js_lt (Rounded n) k = (n < k)"

fun js_le :: "jsnum \<Rightarrow> int \<Rightarrow> bool" where
  "js_le NaN k = False"
| "js_le (Num n) k = (n \<le> k)"
| "js_le (Rounded n) k = (n \<le> k)"

fun js_gt :: "jsnum \<Rightarrow> int \<Rightarrow> bool" where
  "js_gt NaN k = False"
| "js_gt (Num n) k = (n > k)"
| "js_gt (Rounded n) k = (n > k)"

fun js_ge :: "jsnum \<Rightarrow> int \<Rightarrow> bool" where
  "js_ge NaN k = False"
| "js_ge (Num n) k = (n \<ge> k)"
| "js_ge (Rounded n) k = (n \<ge> k)"

text \<open>
  \<open>parseInt(string)\<close> with no radix argument (ECMAScript 19.2.5): strip leading white
  space, read an optional sign, switch to radix 16 after a \<open>0x\<close> or \<open>0X\<close> prefix and stay
  at radix 10 otherwise, take the longest prefix of digits of that radix, and return
  \<open>NaN\<close> when that prefix is empty and the Number for the signed value of the digits
  otherwise.
\<close>

definition digit_val :: "nat \<Rightarrow> nat option" where
  "digit_val c =
     (if 0x30 \<le> c \<and> c \<le> 0x39 then Some (c - 0x30)
      else if 0x61 \<le> c \<and> c \<le> 0x7A then Some (c - 0x61 + 10)
      else if 0x41 \<le> c \<and> c \<le> 0x5A then Some (c - 0x41 + 10)
      else None)"

definition is_digit :: "nat \<Rightarrow> nat \<Rightarrow> bool" where
  "is_digit radix c = (case digit_val c of None \<Rightarrow> False | Some d \<Rightarrow> d < radix)"

definition digits_value :: "nat \<Rightarrow> jsstring \<Rightarrow> nat" where
  "digits_value radix z =
     foldl (\<lambda>acc c. case digit_val c of None \<Rightarrow> acc | Some d \<Rightarrow> acc * radix + d) 0 z"

definition strip_sign :: "jsstring \<Rightarrow> int \<times> jsstring" where
  "strip_sign s =
     (case s of
        [] \<Rightarrow> (1, [])
      | c # r \<Rightarrow> if c = 0x2D then (-1, r) else if c = 0x2B then (1, r) else (1, s))"

definition strip_prefix :: "jsstring \<Rightarrow> nat \<times> jsstring" where
  "strip_prefix s =
     (case s of
        a # b # r \<Rightarrow> if a = 0x30 \<and> (b = 0x78 \<or> b = 0x58) then (16, r) else (10, s)
      | _ \<Rightarrow> (10, s))"

definition parseInt :: "jsstring \<Rightarrow> jsnum" where
  "parseInt s =
     (let (sign, s2) = strip_sign (trimStart s);
          (radix, s3) = strip_prefix s2;
          z = takeWhile (is_digit radix) s3
      in if z = [] then NaN else to_number (sign * int (digits_value radix z)))"

text \<open>
  The values that the form tests for truthiness: \<open>undefined\<close>, booleans and strings.
  \<open>a && b\<close> is \<open>a\<close> when \<open>a\<close> is falsy and \<open>b\<close> otherwise.
\<close>

datatype jsval = JUndefined | JBool bool | JStr jsstring

fun truthy :: "jsval \<Rightarrow> bool" where
  "truthy JUndefined = False"
| "truthy (JBool b) = b"
| "truthy (JStr s) = (s \<noteq> [])"

definition js_and :: "jsval \<Rightarrow> jsval \<Rightarrow> jsval" where
  "js_and a b = (if truthy a then b else a)"

section \<open>The state of the form\<close>

text \<open>
  The component's state hooks, as one record: the three draft fields as the inputs hold
  them (text), the error message of each field (the empty string when there is none),
  the touched flag of each field, the suggestion list, whether the suggestion panel is
  open, and the loading flag.
\<close>

record error_map =
  errors_name :: jsstring
  errors_quantity :: jsstring
  errors_threshold :: jsstring

record touched_map =
  touched_name :: bool
  touched_quantity :: bool
  touched_threshold :: bool

record form =
  name :: jsstring
  quantity :: jsstring
  lowThreshold :: jsstring
  errors :: error_map
  touched :: touched_map
  suggestions :: "jsstring list"
  showSuggestions :: bool
  isLoading :: bool

definition init_form :: form where
  "init_form =
     \<lparr>name = [], quantity = [], lowThreshold = [],
      errors = \<lparr>errors_name = [], errors_quantity = [], errors_threshold = []\<rparr>,
      touched = \<lparr>touched_name = False, touched_quantity = False, touched_threshold = False\<rparr>,
      suggestions = [], showSuggestions = False, isLoading = False\<rparr>"

definition COMMON_ITEMS :: "jsstring list" where
  "COMMON_ITEMS =
     map str [''Milk'', ''Bread'', ''Eggs'', ''Rice'', ''Pasta'', ''Chicken'', ''Tomatoes'',
              ''Onions'', ''Potatoes'', ''Cheese'']"

text \<open>The three inline messages; the second one holds U+2265, the sign for "at least".\<close>

definition name_required :: jsstring where
  "name_required = str ''Item name is required.''"

definition quantity_invalid :: jsstring where
  "quantity_invalid = str ''Quantity must be '' @ [0x2265] @ str '' 0.''"

definition threshold_invalid :: jsstring where
  "threshold_invalid = str ''Threshold must be > 0.''"

text \<open>
  What the outside world sees of a handler: the calls it makes to the notification
  library, the console, the creation service, the two callbacks of the parent, the
  event object and the timer.
\<close>

datatype jserror = JsError jsstring

record payload =
  payload_name :: jsstring
  payload_quantity :: jsnum
  payload_lowThreshold :: jsnum
  payload_householdId :: jsstring

record household =
  key :: jsstring

datatype effect =
    PreventDefault
  | ToastError jsstring
  | ToastSuccess jsstring
  | ConsoleError jsstring jserror
  | CreateInventoryItem payload
  | OnSuccess
  | OnCancel
  | SetTimeoutHide nat

datatype completion = Normal | Throw jserror

section \<open>Validation\<close>

text \<open>
  \<open>validate\<close> (lines 41 to 48): the three rules on the draft, whatever the touched
  flags are; it stores the new error mapping and returns whether it is empty.
\<close>

definition validate :: "form \<Rightarrow> bool \<times> form" where
  "validate st =
     (let e0 = \<lparr>errors_name = [], errors_quantity = [], errors_threshold = []\<rparr>;
          e1 = (if \<not> truthy (JStr (trim (name st)))
                then e0\<lparr>errors_name := name_required\<rparr> else e0);
          e2 = (if \<not> truthy (JStr (quantity st)) \<or> js_lt (parseInt (quantity st)) 0
                then e1\<lparr>errors_quantity := quantity_invalid\<rparr> else e1);
          newErrors = (if \<not> truthy (JStr (lowThreshold st)) \<or> js_le (parseInt (lowThreshold st)) 0
                then e2\<lparr>errors_threshold := threshold_invalid\<rparr> else e2)
      in (\<not> truthy (JStr (errors_name newErrors)) \<and>
          \<not> truthy (JStr (errors_quantity newErrors)) \<and>
          \<not> truthy (JStr (errors_threshold newErrors)),
          st\<lparr>errors := newErrors\<rparr>))"

text \<open>
  \<open>isValid\<close> (line 91), a chain of \<open>&&\<close> (it associates to the left), and the
  \<open>disabled\<close> attribute of the submit button (line 151), \<open>!isValid || isLoading\<close>.
\<close>

definition isValid :: "form \<Rightarrow> jsval" where
  "isValid st =
     js_and (js_and (js_and (js_and (JStr (trim (name st))) (JStr (quantity st)))
                            (JBool (js_ge (parseInt (quantity st)) 0)))
                    (JStr (lowThreshold st)))
            (JBool (js_gt (parseInt (lowThreshold st)) 0))"

definition submit_disabled :: "form \<Rightarrow> bool" where
  "submit_disabled st = (\<not> truthy (isValid st) \<or> isLoading st)"

definition submit_enabled :: "form \<Rightarrow> bool" where
  "submit_enabled st = (\<not> submit_disabled st)"

text \<open>
  The inline message of a field (lines 115, 129 and 147): the paragraph is rendered when
  \<open>errors.f && touched.f\<close> is truthy, and then shows \<open>errors.f\<close>.
\<close>

datatype field = FName | FQuantity | FThreshold

fun error_of :: "field \<Rightarrow> form \<Rightarrow> jsstring" where
  "error_of FName st = errors_name (errors st)"
| "error_of FQuantity st = errors_quantity (errors st)"
| "error_of FThreshold st = errors_threshold (errors st)"

fun touched_of :: "field \<Rightarrow> form \<Rightarrow> bool" where
  "touched_of FName st = touched_name (touched st)"
| "touched_of FQuantity st = touched_quantity (touched st)"
| "touched_of FThreshold st = touched_threshold (touched st)"

definition rendered_error :: "field \<Rightarrow> form \<Rightarrow> jsstring option" where
  "rendered_error f st =
     (if truthy (js_and (JStr (error_of f st)) (JBool (touched_of f st)))
      then Some (error_of f st) else None)"

section \<open>The handlers\<close>

text \<open>
  The filter of lines 53 and 104:
  \<open>COMMON_ITEMS.filter(item => item.toLowerCase().includes(value.toLowerCase()))\<close>.
\<close>

definition filterItems :: "jsstring \<Rightarrow> jsstring list" where
  "filterItems v =
     filter (\<lambda>item. includes_str (toLowerCase item) (toLowerCase v)) COMMON_ITEMS"

text \<open>\<open>handleNameChange\<close> (lines 50 to 60).\<close>

definition handleNameChange :: "jsstring \<Rightarrow> form \<Rightarrow> form" where
  "handleNameChange v st =
     (let st1 = st\<lparr>name := v\<rparr>;
          st2 = (if length v > 0
                 then (let filtered = filterItems v
                       in st1\<lparr>suggestions := filtered, showSuggestions := (length filtered > 0)\<rparr>)
                 else st1\<lparr>showSuggestions := False\<rparr>)
      in if touched_name (touched st)
         then st2\<lparr>errors := (errors st2)\<lparr>errors_name :=
                 (if truthy (JStr (trim v)) then [] else name_required)\<rparr>\<rparr>
         else st2)"

text \<open>
  The name input's \<open>onBlur\<close> (line 103): the field is marked touched at once, and the
  panel is closed by a timer callback, 200 milliseconds later.
\<close>

definition onBlurName :: "form \<Rightarrow> form \<times> effect list" where
  "onBlurName st = (st\<lparr>touched := (touched st)\<lparr>touched_name := True\<rparr>\<rparr>, [SetTimeoutHide 200])"

definition timerHide :: "form \<Rightarrow> form" where
  "timerHide st = st\<lparr>showSuggestions := False\<rparr>"

text \<open>
  The name input's \<open>onFocus\<close> (line 104):
  \<open>name && setSuggestions(...) && setShowSuggestions(true)\<close>. A state setter of React
  returns \<open>undefined\<close>, and \<open>&&\<close> evaluates its right operand only when the left one is
  truthy.
\<close>

definition setSuggestions :: "jsstring list \<Rightarrow> form \<Rightarrow> jsval \<times> form" where
  "setSuggestions v st = (JUndefined, st\<lparr>suggestions := v\<rparr>)"

definition setShowSuggestions :: "bool \<Rightarrow> form \<Rightarrow> jsval \<times> form" where
  "setShowSuggestions v st = (JUndefined, st\<lparr>showSuggestions := v\<rparr>)"

definition onFocusName :: "form \<Rightarrow> form" where
  "onFocusName st =
     (if truthy (JStr (name st))
      then (let (r, st1) = setSuggestions (filterItems (name st)) st
            in if truthy r then snd (setShowSuggestions True st1) else st1)
      else st)"

text \<open>
  The panel (lines 107 to 113) is rendered when \<open>showSuggestions && suggestions.length > 0\<close>,
  with one entry for each suggestion; a click on an entry sets the name and closes the
  panel.
\<close>

definition panel_shown :: "form \<Rightarrow> bool" where
  "panel_shown st = (showSuggestions st \<and> length (suggestions st) > 0)"

definition clickSuggestion :: "jsstring \<Rightarrow> form \<Rightarrow> form" where
  "clickSuggestion item st = st\<lparr>name := item, showSuggestions := False\<rparr>"

text \<open>The quantity input (lines 124 and 125) and the threshold input (lines 141 and 142).\<close>

definition handleQuantityChange :: "jsstring \<Rightarrow> form \<Rightarrow> form" where
  "handleQuantityChange v st =
     (let st1 = st\<lparr>quantity := v\<rparr>
      in if touched_quantity (touched st)
         then st1\<lparr>errors := (errors st1)\<lparr>errors_quantity :=
                 (if truthy (js_and (JStr v) (JBool (js_ge (parseInt v) 0)))
                  then [] else quantity_invalid)\<rparr>\<rparr>
         else st1)"

definition onBlurQuantity :: "form \<Rightarrow> form" where
  "onBlurQuantity st = st\<lparr>touched := (touched st)\<lparr>touched_quantity := True\<rparr>\<rparr>"

definition handleThresholdChange :: "jsstring \<Rightarrow> form \<Rightarrow> form" where
  "handleThresholdChange v st =
     (let st1 = st\<lparr>lowThreshold := v\<rparr>
      in if touched_threshold (touched st)
         then st1\<lparr>errors := (errors st1)\<lparr>errors_threshold :=
                 (if truthy (js_and (JStr v) (JBool (js_gt (parseInt v) 0)))
                  then [] else threshold_invalid)\<rparr>\<rparr>
         else st1)"

definition onBlurThreshold :: "form \<Rightarrow> form" where
  "onBlurThreshold st = st\<lparr>touched := (touched st)\<lparr>touched_threshold := True\<rparr>\<rparr>"

text \<open>The key listener of lines 33 to 39 and the Cancel button (line 154).\<close>

definition handleKeyDown :: "jsstring \<Rightarrow> effect list" where
  "handleKeyDown k = (if k = str ''Escape'' then [OnCancel] else [])"

definition clickCancel :: "effect list" where
  "clickCancel = [OnCancel]"

section \<open>Submission\<close>

text \<open>
  \<open>handleSubmit\<close> (lines 62 to 89) runs in two parts. The first part runs in the submit
  event, up to the \<open>await\<close>: it returns the payload when it has called the creation
  service, and \<open>None\<close> when it has returned before. The second part runs when the call
  settles: its first argument is the error of a rejected call (\<open>None\<close> when the call
  resolves), its second argument the error that the \<open>onSuccess\<close> callback throws (\<open>None\<close>
  when it returns). The notification library and the console are taken not to throw.
  The completion is how the promise of \<open>handleSubmit\<close> settles: \<open>Normal\<close> when it is
  fulfilled, \<open>Throw e\<close> when the error \<open>e\<close> reaches the caller.
\<close>

definition select_household_first :: jsstring where
  "select_household_first = str ''Please select a household first''"

definition item_added :: jsstring where
  "item_added = str ''Item added successfully''"

definition failed_to_add :: jsstring where
  "failed_to_add = str ''Failed to add item''"

definition log_prefix :: jsstring where
  "log_prefix = str ''APP:: AddItemForm:: Failed to add item:''"

text \<open>
  The payload of lines 75 to 80. Its two numbers are the Numbers that \<open>parseInt\<close>
  returns: exact up to \<open>2^53\<close> in magnitude, rounded beyond, \<open>NaN\<close> when no integer is
  read.
\<close>

definition make_payload :: "household \<Rightarrow> form \<Rightarrow> payload" where
  "make_payload h st =
     \<lparr>payload_name = name st,
      payload_quantity = parseInt (quantity st),
      payload_lowThreshold = parseInt (lowThreshold st),
      payload_householdId = key h\<rparr>"

definition handleSubmit_start ::
  "household option \<Rightarrow> form \<Rightarrow> form \<times> effect list \<times> payload option" where
  "handleSubmit_start selectedHousehold st =
     (let st1 = st\<lparr>touched :=
                  \<lparr>touched_name = True, touched_quantity = True, touched_threshold = True\<rparr>\<rparr>;
          (ok, st2) = validate st1
      in if \<not> ok then (st2, [PreventDefault], None)
         else (case selectedHousehold of
                 None \<Rightarrow> (st2, [PreventDefault, ToastError select_household_first], None)
               | Some h \<Rightarrow>
                   (let p = make_payload h st
                    in (st2\<lparr>isLoading := True\<rparr>, [PreventDefault, CreateInventoryItem p], Some p))))"

definition try_block :: "jserror option \<Rightarrow> jserror option \<Rightarrow> effect list \<times> completion" where
  "try_block rejected thrown =
     (case rejected of
        Some e \<Rightarrow> ([], Throw e)
      | None \<Rightarrow>
          (case thrown of
             None \<Rightarrow> ([ToastSuccess item_added, OnSuccess], Normal)
           | Some e \<Rightarrow> ([ToastSuccess item_added, OnSuccess], Throw e)))"

definition catch_block :: "completion \<Rightarrow> effect list \<times> completion" where
  "catch_block c =
     (case c of
        Normal \<Rightarrow> ([], Normal)
      | Throw e \<Rightarrow> ([ConsoleError log_prefix e, ToastError failed_to_add], Normal))"

definition handleSubmit_resume ::
  "jserror option \<Rightarrow> jserror option \<Rightarrow> form \<Rightarrow> form \<times> effect list \<times> completion" where
  "handleSubmit_resume rejected thrown st =
     (let (effs1, c1) = try_block rejected thrown;
          (effs2, c2) = catch_block c1
      in (st\<lparr>isLoading := False\<rparr>, effs1 @ effs2, c2))"

text \<open>A submission with no other event between the call and its settling.\<close>

definition handleSubmit ::
  "household option \<Rightarrow> jserror option \<Rightarrow> jserror option \<Rightarrow> form
     \<Rightarrow> form \<times> effect list \<times> completion" where
  "handleSubmit selectedHousehold rejected thrown st =
     (case handleSubmit_start selectedHousehold st of
        (st1, effs1, None) \<Rightarrow> (st1, effs1, Normal)
      | (st1, effs1, Some p) \<Rightarrow>
          (let (st2, effs2, c) = handleSubmit_resume rejected thrown st1
           in (st2, effs1 @ effs2, c)))"

definition service_calls :: "effect list \<Rightarrow> payload list" where
  "service_calls effs = concat (map (\<lambda>e. case e of CreateInventoryItem p \<Rightarrow> [p] | _ \<Rightarrow> []) effs)"

section \<open>The form in the page\<close>

text \<open>
  The events that reach the mounted component, and what each of them runs. The page
  holds the state of the form, the number of calls to the creation service that have
  not settled yet, the number of pending timer callbacks, and the effects so far.
  A click on the submit button runs \<open>handleSubmit\<close> only when the button is not disabled,
  and an entry of the panel can only be clicked while the panel renders it. A submit
  event carries the household that the household hook returns at that time, and a change
  event the text that the input reports, whatever it is.
\<close>

datatype event =
    ChangeName jsstring
  | BlurName
  | TimerFires
  | FocusName
  | ClickSuggestion jsstring
  | ChangeQuantity jsstring
  | BlurQuantity
  | ChangeThreshold jsstring
  | BlurThreshold
  | ClickSubmit "household option"
  | CallSettles "jserror option" "jserror option"
  | ClickCancel
  | KeyDown jsstring

record page =
  view :: form
  in_flight :: nat
  timers :: nat
  trace :: "effect list"

definition init_page :: page where
  "init_page = \<lparr>view = init_form, in_flight = 0, timers = 0, trace = []\<rparr>"

fun dispatch :: "event \<Rightarrow> page \<Rightarrow> page" where
  "dispatch (ChangeName v) w = w\<lparr>view := handleNameChange v (view w)\<rparr>"
| "dispatch BlurName w =
     (let (st, effs) = onBlurName (view w)
      in w\<lparr>view := st, timers := timers w + 1, trace := trace w @ effs\<rparr>)"
| "dispatch TimerFires w =
     (if timers w = 0 then w
      else w\<lparr>view := timerHide (view w), timers := timers w - 1\<rparr>)"
| "dispatch FocusName w = w\<lparr>view := onFocusName (view w)\<rparr>"
| "dispatch (ClickSuggestion item) w =
     (if panel_shown (view w) \<and> item \<in> set (suggestions (view w))
      then w\<lparr>view := clickSuggestion item (view w)\<rparr> else w)"
| "dispatch (ChangeQuantity v) w = w\<lparr>view := handleQuantityChange v (view w)\<rparr>"
| "dispatch BlurQuantity w = w\<lparr>view := onBlurQuantity (view w)\<rparr>"
| "dispatch (ChangeThreshold v) w = w\<lparr>view := handleThresholdChange v (view w)\<rparr>"
| "dispatch BlurThreshold w = w\<lparr>view := onBlurThreshold (view w)\<rparr>"
| "dispatch (ClickSubmit h) w =
     (if submit_disabled (view w) then w
      else (let (st, effs, p) = handleSubmit_start h (view w)
            in w\<lparr>view := st,
                 in_flight := in_flight w + (case p of None \<Rightarrow> 0 | Some _ \<Rightarrow> 1),
                 trace := trace w @ effs\<rparr>))"
| "dispatch (CallSettles rejected thrown) w =
     (if in_flight w = 0 then w
      else (let (st, effs, c) = handleSubmit_resume rejected thrown (view w)
            in w\<lparr>view := st, in_flight := in_flight w - 1, trace := trace w @ effs\<rparr>))"
| "dispatch ClickCancel w = w\<lparr>trace := trace w @ clickCancel\<rparr>"
| "dispatch (KeyDown k) w = w\<lparr>trace := trace w @ handleKeyDown k\<rparr>"

definition run_events :: "event list \<Rightarrow> page \<Rightarrow> page" where
  "run_events evs w = foldl (\<lambda>w e. dispatch e w) w evs"

section \<open>The conditions of the specification\<close>

text \<open>
  The submit-enabled predicate in the words of the specification: the name is not empty
  after trimming, the quantity is present and parses to an integer that is at least 0,
  and the threshold is present and parses to an integer above 0.
\<close>

definition nonneg_integer_string :: "jsstring \<Rightarrow> bool" where
  "nonneg_integer_string s =
     (s \<noteq> [] \<and> (case parseInt s of NaN \<Rightarrow> False | Num n \<Rightarrow> 0 \<le> n | Rounded n \<Rightarrow> 0 \<le> n))"

definition pos_integer_string :: "jsstring \<Rightarrow> bool" where
  "pos_integer_string s =
     (s \<noteq> [] \<and> (case parseInt s of NaN \<Rightarrow> False | Num n \<Rightarrow> 0 < n | Rounded n \<Rightarrow> 0 < n))"

definition spec_submit_enabled :: "form \<Rightarrow> bool" where
  "spec_submit_enabled st =
     (trim (name st) \<noteq> [] \<and> nonneg_integer_string (quantity st)
      \<and> pos_integer_string (lowThreshold st))"

text \<open>A string of decimal digits, and nothing else.\<close>

definition decimal_digits :: "jsstring \<Rightarrow> bool" where
  "decimal_digits s = (s \<noteq> [] \<and> list_all (\<lambda>c. 0x30 \<le> c \<and> c \<le> 0x39) s)"

text \<open>The states that the theorems below are evaluated at.\<close>

definition no_errors :: error_map where
  "no_errors = \<lparr>errors_name = [], errors_quantity = [], errors_threshold = []\<rparr>"

definition all_touched :: touched_map where
  "all_touched = \<lparr>touched_name = True, touched_quantity = True, touched_threshold = True\<rparr>"

definition milk_form :: form where
  "milk_form = init_form\<lparr>name := str ''Milk'', quantity := str ''2'', lowThreshold := str ''1''\<rparr>"

definition closed_panel_form :: form where
  "closed_panel_form = timerHide (fst (onBlurName (handleNameChange (str ''Mi'') init_form)))"

definition h1 :: household where
  "h1 = \<lparr>key = str ''H1''\<rparr>"

definition typed_milk :: "event list" where
  "typed_milk =
     [ChangeName (str ''Milk''), ChangeQuantity (str ''2''), ChangeThreshold (str ''1'')]"

definition blurred_Mi :: "event list" where
  "blurred_Mi = [ChangeName (str ''Mi''), BlurName]"

definition late_click :: "event list" where
  "late_click = blurred_Mi @ [TimerFires, ClickSuggestion (str ''Milk'')]"

definition double_click :: "event list" where
  "double_click = typed_milk @ [ClickSubmit (Some h1), ClickSubmit (Some h1)]"

text \<open>
  The number of calls in flight agrees with the loading flag: one call when it is set,
  none when it is not.
\<close>

definition in_flight_ok :: "page \<Rightarrow> bool" where
  "in_flight_ok w = (in_flight w = (if isLoading (view w) then 1 else 0))"

text \<open>
  A recorded message is not stale: the field it belongs to is touched and fails the rule
  of its change handler; and the panel is open only over a name that is not blank.
\<close>

definition errors_fresh :: "form \<Rightarrow> bool" where
  "errors_fresh st =
     ((errors_name (errors st) \<noteq> [] \<longrightarrow> touched_name (touched st) \<and> trim (name st) = [])
      \<and> (showSuggestions st \<longrightarrow> trim (name st) \<noteq> [])
      \<and> (errors_quantity (errors st) \<noteq> [] \<longrightarrow>
            touched_quantity (touched st)
            \<and> \<not> truthy (js_and (JStr (quantity st)) (JBool (js_ge (parseInt (quantity st)) 0))))
      \<and> (errors_threshold (errors st) \<noteq> [] \<longrightarrow>
            touched_threshold (touched st)
            \<and> \<not> truthy (js_and (JStr (lowThreshold st)) (JBool (js_gt (parseInt (lowThreshold st)) 0)))))"

definition milk_payload :: payload where
  "milk_payload =
     \<lparr>payload_name = str ''Milk'', payload_quantity = Num 2, payload_lowThreshold = Num 1,
      payload_householdId = str ''H1''\<rparr>"

section \<open>Evaluation of the string functions\<close>

lemmas js_defs = str_def trimStart_def trim_def is_ws_def strip_sign_def strip_prefix_def
  is_digit_def digit_val_def digits_value_def parseInt_def to_number_def toLowerCase_def
  lower_unit_def

lemmas msg_defs = name_required_def quantity_invalid_def threshold_invalid_def
  select_household_first_def item_added_def failed_to_add_def log_prefix_def

lemma parseInt_2: "parseInt (str ''2'') = Num 2"
  by (simp add: js_defs)

lemma parseInt_1: "parseInt (str ''1'') = Num 1"
  by (simp add: js_defs)

lemma trim_Milk: "trim (str ''Milk'') = str ''Milk''"
  by (simp add: js_defs)

lemma str_Milk_ne: "str ''Milk'' \<noteq> []"
  by (simp add: str_def)

lemma messages_nonempty [simp]:
  "name_required \<noteq> []" "quantity_invalid \<noteq> []" "threshold_invalid \<noteq> []"
  by (simp_all add: msg_defs str_def)

text \<open>
  A quantity beyond \<open>2^53\<close> is sent rounded, and the Kelvin sign finds the words that
  hold a k.
\<close>

lemma parseInt_beyond_doubles:
  "parseInt (str ''9007199254740993'') = Rounded 9007199254740993"
  by (simp add: js_defs)

lemma filterItems_Kelvin: "filterItems [0x212A] = [str ''Milk'', str ''Chicken'']"
  by (simp add: filterItems_def COMMON_ITEMS_def js_defs)

section \<open>The submit button\<close>

lemma truthy_js_and: "truthy (js_and a b) = (truthy a \<and> truthy b)"
  by (simp add: js_and_def)

lemma truthy_isValid:
  "truthy (isValid st) =
     (trim (name st) \<noteq> [] \<and> quantity st \<noteq> [] \<and> js_ge (parseInt (quantity st)) 0
      \<and> lowThreshold st \<noteq> [] \<and> js_gt (parseInt (lowThreshold st)) 0)"
  by (simp add: isValid_def truthy_js_and)

lemma js_ge_case:
  "js_ge x 0 = (case x of NaN \<Rightarrow> False | Num n \<Rightarrow> 0 \<le> n | Rounded n \<Rightarrow> 0 \<le> n)"
  by (cases x) simp_all

lemma js_gt_case:
  "js_gt x 0 = (case x of NaN \<Rightarrow> False | Num n \<Rightarrow> 0 < n | Rounded n \<Rightarrow> 0 < n)"
  by (cases x) simp_all

lemma isValid_spec: "truthy (isValid st) = spec_submit_enabled st"
  by (simp add: truthy_isValid spec_submit_enabled_def nonneg_integer_string_def
      pos_integer_string_def js_ge_case js_gt_case)

lemma spec_enabled_milk: "spec_submit_enabled milk_form"
  by (simp add: spec_submit_enabled_def nonneg_integer_string_def pos_integer_string_def
      milk_form_def init_form_def parseInt_2 parseInt_1 trim_Milk str_Milk_ne)
    (simp add: str_def)

text \<open>
  What "parses to an integer" covers: \<open>parseInt\<close> reads a string of decimal digits as
  the number it writes, and it also reads the integer at the front of a longer string.
\<close>

lemma takeWhile_all: "list_all P s \<Longrightarrow> takeWhile P s = s"
  by (induction s) simp_all

lemma decimal_is_digit: "0x30 \<le> c \<and> c \<le> 0x39 \<Longrightarrow> is_digit 10 c"
  by (auto simp add: is_digit_def digit_val_def)

lemma parseInt_decimal:
  assumes "decimal_digits s"
  shows "parseInt s = to_number (int (digits_value 10 s))"
proof -
  from assms obtain c r where s: "s = c # r" and c: "0x30 \<le> c" "c \<le> 0x39"
    and r: "list_all (\<lambda>c. 0x30 \<le> c \<and> c \<le> 0x39) r"
    by (cases s) (auto simp add: decimal_digits_def)
  have ws: "trimStart s = s"
    using c by (simp add: trimStart_def s is_ws_def)
  have sg: "strip_sign s = (1, s)"
    using c by (simp add: strip_sign_def s)
  have pf: "strip_prefix s = (10, s)"
    using c r by (cases r) (auto simp add: strip_prefix_def s)
  have "list_all (is_digit 10) s"
    using c r by (auto simp add: s list_all_iff decimal_is_digit)
  then have tw: "takeWhile (is_digit 10) s = s"
    by (rule takeWhile_all)
  show ?thesis
    by (simp add: parseInt_def ws sg pf tw) (simp add: s)
qed

lemma decimal_nonneg: "decimal_digits s \<Longrightarrow> nonneg_integer_string s"
  by (simp add: nonneg_integer_string_def parseInt_decimal to_number_def)
    (simp add: decimal_digits_def)

lemma prefix_parse_examples:
  "nonneg_integer_string (str ''1.5'')" "nonneg_integer_string (str ''2abc'')"
  "pos_integer_string (str '' 0x1F'')" "\<not> decimal_digits (str ''1.5'')"
  by (simp_all add: nonneg_integer_string_def pos_integer_string_def decimal_digits_def js_defs)

text \<open>
  C1, as the code has it. The submit button is enabled exactly when the name is not
  empty after trimming, the quantity is present and parses to an integer that is at
  least 0, the threshold is present and parses to an integer above 0, and no submission
  is in flight (the loading flag is false). The touched flags play no part.
\<close>

theorem submit_enabled_iff:
  "(submit_enabled st \<longleftrightarrow> spec_submit_enabled st \<and> \<not> isLoading st)
   \<and> submit_enabled (st\<lparr>touched := t\<rparr>) = submit_enabled st"
  by (auto simp add: submit_enabled_def submit_disabled_def isValid_spec spec_submit_enabled_def)

theorem submit_enabled_iff_witness:
  "submit_enabled milk_form \<and> \<not> submit_enabled (milk_form\<lparr>isLoading := True\<rparr>)
   \<and> submit_enabled (milk_form\<lparr>touched := all_touched\<rparr>)"
proof -
  have a: "\<not> isLoading milk_form"
    by (simp add: milk_form_def init_form_def)
  have b: "submit_enabled milk_form"
    using submit_enabled_iff [of milk_form all_touched] spec_enabled_milk a by simp
  have c: "\<not> submit_enabled (milk_form\<lparr>isLoading := True\<rparr>)"
    using submit_enabled_iff [of "milk_form\<lparr>isLoading := True\<rparr>" all_touched] by simp
  have d: "submit_enabled (milk_form\<lparr>touched := all_touched\<rparr>)"
    using submit_enabled_iff [of milk_form all_touched] b by simp
  from b c d show ?thesis by simp
qed

text \<open>
  C1 as the specification states it fails while a submission is in flight: the three
  conditions on the fields hold and the button is disabled.
\<close>

theorem submit_enabled_loading_counterexample:
  "spec_submit_enabled (milk_form\<lparr>isLoading := True\<rparr>)
   \<and> \<not> submit_enabled (milk_form\<lparr>isLoading := True\<rparr>)"
proof -
  have "spec_submit_enabled (milk_form\<lparr>isLoading := True\<rparr>)"
    using spec_enabled_milk by (simp add: spec_submit_enabled_def)
  moreover have "\<not> submit_enabled (milk_form\<lparr>isLoading := True\<rparr>)"
    by (simp add: submit_enabled_def submit_disabled_def)
  ultimately show ?thesis by simp
qed

section \<open>Properties of a submission\<close>

lemma validate_ok_iff:
  "fst (validate st) =
     (trim (name st) \<noteq> [] \<and> quantity st \<noteq> [] \<and> \<not> js_lt (parseInt (quantity st)) 0
      \<and> lowThreshold st \<noteq> [] \<and> \<not> js_le (parseInt (lowThreshold st)) 0)"
  by (simp add: validate_def Let_def)

lemma isValid_validate: "truthy (isValid st) \<Longrightarrow> fst (validate st)"
  by (cases "parseInt (quantity st)"; cases "parseInt (lowThreshold st)")
     (simp_all add: truthy_isValid validate_ok_iff)

lemma validate_ok_errors: "fst (validate st) \<Longrightarrow> snd (validate st) = st\<lparr>errors := no_errors\<rparr>"
  by (simp add: validate_def Let_def no_errors_def split: if_splits)

lemma validate_touched: "fst (validate (st\<lparr>touched := t\<rparr>)) = fst (validate st)"
  by (simp add: validate_ok_iff)

lemma validate_blank_name:
  "trim (name st) = [] \<Longrightarrow>
   \<not> fst (validate st) \<and> errors_name (errors (snd (validate st))) = name_required"
  by (simp add: validate_def Let_def)

lemma validate_keeps:
  "name (snd (validate st)) = name st \<and> quantity (snd (validate st)) = quantity st
   \<and> lowThreshold (snd (validate st)) = lowThreshold st
   \<and> touched (snd (validate st)) = touched st
   \<and> suggestions (snd (validate st)) = suggestions st
   \<and> showSuggestions (snd (validate st)) = showSuggestions st
   \<and> isLoading (snd (validate st)) = isLoading st"
  by (simp add: validate_def Let_def)

lemma handleSubmit_start_invalid:
  "\<not> fst (validate st) \<Longrightarrow>
   handleSubmit_start h st = (snd (validate (st\<lparr>touched := all_touched\<rparr>)), [PreventDefault], None)"
  by (simp add: handleSubmit_start_def all_touched_def split_beta validate_touched)

lemma handleSubmit_start_no_household:
  "fst (validate st) \<Longrightarrow>
   handleSubmit_start None st =
     (st\<lparr>touched := all_touched, errors := no_errors\<rparr>,
      [PreventDefault, ToastError select_household_first], None)"
  using validate_ok_errors [of "st\<lparr>touched := all_touched\<rparr>"]
  by (simp add: handleSubmit_start_def all_touched_def split_beta validate_touched)

lemma handleSubmit_start_call:
  "fst (validate st) \<Longrightarrow>
   handleSubmit_start (Some h) st =
     (st\<lparr>touched := all_touched, errors := no_errors, isLoading := True\<rparr>,
      [PreventDefault, CreateInventoryItem (make_payload h st)], Some (make_payload h st))"
  using validate_ok_errors [of "st\<lparr>touched := all_touched\<rparr>"]
  by (simp add: handleSubmit_start_def all_touched_def split_beta Let_def validate_touched)

lemma handleSubmit_resume_rejected:
  "handleSubmit_resume (Some e) thrown st =
     (st\<lparr>isLoading := False\<rparr>, [ConsoleError log_prefix e, ToastError failed_to_add], Normal)"
  by (simp add: handleSubmit_resume_def try_block_def catch_block_def)

lemma handleSubmit_resume_resolved:
  "handleSubmit_resume None None st =
     (st\<lparr>isLoading := False\<rparr>, [ToastSuccess item_added, OnSuccess], Normal)"
  by (simp add: handleSubmit_resume_def try_block_def catch_block_def)

lemma handleSubmit_resume_thrown:
  "handleSubmit_resume None (Some e) st =
     (st\<lparr>isLoading := False\<rparr>,
      [ToastSuccess item_added, OnSuccess, ConsoleError log_prefix e, ToastError failed_to_add],
      Normal)"
  by (simp add: handleSubmit_resume_def try_block_def catch_block_def)

lemma handleSubmit_resume_state:
  "fst (handleSubmit_resume rejected thrown st) = st\<lparr>isLoading := False\<rparr>
   \<and> snd (snd (handleSubmit_resume rejected thrown st)) = Normal"
  by (cases rejected; cases thrown)
     (simp_all add: handleSubmit_resume_rejected handleSubmit_resume_resolved
        handleSubmit_resume_thrown)

lemma validate_milk:
  "name st = str ''Milk'' \<Longrightarrow> quantity st = str ''2'' \<Longrightarrow> lowThreshold st = str ''1''
   \<Longrightarrow> fst (validate st)"
  by (simp add: validate_ok_iff parseInt_2 parseInt_1 trim_Milk) (simp add: str_def)

lemma payload_milk:
  "name st = str ''Milk'' \<Longrightarrow> quantity st = str ''2'' \<Longrightarrow> lowThreshold st = str ''1''
   \<Longrightarrow> make_payload h1 st = milk_payload"
  by (simp add: make_payload_def milk_payload_def h1_def parseInt_2 parseInt_1)

text \<open>
  C2. A submit with name "Milk", quantity "2", threshold "1" and the household "H1"
  selected calls the creation service exactly once, with the payload
  \<open>{name: "Milk", quantity: 2, lowThreshold: 1, householdId: "H1"}\<close>; when the call
  resolves, the notification "Item added successfully" is shown once and \<open>onSuccess\<close> is
  invoked exactly once (whether or not the callback throws). When the callback returns,
  these four effects are all that happens, and the loading flag is cleared.
\<close>

theorem submit_milk_calls_service_once:
  assumes "name st = str ''Milk''" "quantity st = str ''2''" "lowThreshold st = str ''1''"
  shows "handleSubmit (Some \<lparr>key = str ''H1''\<rparr>) None None st =
           (st\<lparr>touched := all_touched, errors := no_errors, isLoading := False\<rparr>,
            [PreventDefault,
             CreateInventoryItem \<lparr>payload_name = str ''Milk'', payload_quantity = Num 2,
               payload_lowThreshold = Num 1, payload_householdId = str ''H1''\<rparr>,
             ToastSuccess (str ''Item added successfully''),
             OnSuccess],
            Normal)
         \<and> service_calls (fst (snd (handleSubmit (Some \<lparr>key = str ''H1''\<rparr>) None thrown st))) =
             [\<lparr>payload_name = str ''Milk'', payload_quantity = Num 2,
               payload_lowThreshold = Num 1, payload_householdId = str ''H1''\<rparr>]
         \<and> count_list (fst (snd (handleSubmit (Some \<lparr>key = str ''H1''\<rparr>) None thrown st)))
               OnSuccess = 1
         \<and> count_list (fst (snd (handleSubmit (Some \<lparr>key = str ''H1''\<rparr>) None thrown st)))
               (ToastSuccess (str ''Item added successfully'')) = 1"
proof -
  have start: "handleSubmit_start (Some h1) st =
     (st\<lparr>touched := all_touched, errors := no_errors, isLoading := True\<rparr>,
      [PreventDefault, CreateInventoryItem milk_payload], Some milk_payload)"
    using handleSubmit_start_call [OF validate_milk [OF assms], of h1] payload_milk [OF assms]
    by simp
  have a: "handleSubmit (Some h1) None None st =
           (st\<lparr>touched := all_touched, errors := no_errors, isLoading := False\<rparr>,
            [PreventDefault, CreateInventoryItem milk_payload, ToastSuccess item_added, OnSuccess],
            Normal)"
    by (simp add: handleSubmit_def start handleSubmit_resume_resolved)
  have b: "fst (snd (handleSubmit (Some h1) None thrown st)) =
            [PreventDefault, CreateInventoryItem milk_payload, ToastSuccess item_added, OnSuccess]
            @ (case thrown of None \<Rightarrow> []
               | Some e \<Rightarrow> [ConsoleError log_prefix e, ToastError failed_to_add])"
    by (cases thrown)
       (simp_all add: handleSubmit_def start handleSubmit_resume_resolved
          handleSubmit_resume_thrown)
  have c: "service_calls (fst (snd (handleSubmit (Some h1) None thrown st))) = [milk_payload]"
    unfolding b by (cases thrown) (simp_all add: service_calls_def)
  have d: "count_list (fst (snd (handleSubmit (Some h1) None thrown st))) OnSuccess = 1"
    unfolding b by (cases thrown) simp_all
  have e: "count_list (fst (snd (handleSubmit (Some h1) None thrown st)))
             (ToastSuccess item_added) = 1"
    unfolding b by (cases thrown) simp_all
  from a c d e show ?thesis
    unfolding h1_def milk_payload_def item_added_def by simp
qed

text \<open>C2 at the form that holds these three values and nothing else.\<close>

theorem submit_milk_calls_service_once_witness:
  "handleSubmit (Some \<lparr>key = str ''H1''\<rparr>) None None milk_form =
     (milk_form\<lparr>touched := all_touched, errors := no_errors, isLoading := False\<rparr>,
      [PreventDefault,
       CreateInventoryItem \<lparr>payload_name = str ''Milk'', payload_quantity = Num 2,
         payload_lowThreshold = Num 1, payload_householdId = str ''H1''\<rparr>,
       ToastSuccess (str ''Item added successfully''),
       OnSuccess],
      Normal)"
proof -
  have "name milk_form = str ''Milk''" "quantity milk_form = str ''2''"
    "lowThreshold milk_form = str ''1''"
    by (simp_all add: milk_form_def)
  from submit_milk_calls_service_once [OF this] show ?thesis by simp
qed


lemma typed_milk_page:
  "run_events typed_milk init_page =
     init_page\<lparr>view := milk_form\<lparr>suggestions := [str ''Milk''], showSuggestions := True\<rparr>\<rparr>"
proof -
  have f: "filterItems (str ''Milk'') = [str ''Milk'']"
    by (simp add: filterItems_def COMMON_ITEMS_def js_defs)
  show ?thesis
    by (simp add: run_events_def typed_milk_def init_page_def handleNameChange_def
        handleQuantityChange_def handleThresholdChange_def milk_form_def init_form_def Let_def f)
      (simp add: str_def)
qed

lemma typed_milk_enabled: "submit_enabled (view (run_events typed_milk init_page))"
  using spec_enabled_milk
  by (simp add: typed_milk_page submit_enabled_def submit_disabled_def isValid_spec
      spec_submit_enabled_def)
    (simp add: milk_form_def init_form_def)

text \<open>
  In the page, no message is stale, so a form whose submit button is enabled records no
  message at all.
\<close>

lemma includes_str_set: "includes_str xs sub \<Longrightarrow> set sub \<subseteq> set xs"
proof (induction xs)
  case Nil
  then show ?case by simp
next
  case (Cons x xs)
  from Cons.prems have "take (length sub) (x # xs) = sub \<or> includes_str xs sub"
    by simp
  then show ?case
  proof
    assume "take (length sub) (x # xs) = sub"
    then have "set sub = set (take (length sub) (x # xs))"
      by simp
    then show ?thesis
      using set_take_subset [of "length sub" "x # xs"] by simp
  next
    assume "includes_str xs sub"
    with Cons.IH show ?thesis by auto
  qed
qed

lemma common_items_letters:
  "item \<in> set COMMON_ITEMS \<Longrightarrow> x \<in> set (toLowerCase item) \<Longrightarrow> 0x61 \<le> x \<and> x \<le> 0x7A"
  by (auto simp add: COMMON_ITEMS_def str_def toLowerCase_def lower_unit_def)

lemma lower_letter_not_ws: "0x61 \<le> lower_unit c \<Longrightarrow> lower_unit c \<le> 0x7A \<Longrightarrow> \<not> is_ws c"
  by (auto simp add: lower_unit_def is_ws_def split: if_splits)

lemma trim_nonempty: "c \<in> set v \<Longrightarrow> \<not> is_ws c \<Longrightarrow> trim v \<noteq> []"
proof -
  assume c: "c \<in> set v" "\<not> is_ws c"
  then have "c \<in> set (dropWhile is_ws v)"
    by (induction v) auto
  then have "c \<in> set (rev (dropWhile is_ws v))"
    by simp
  with c(2) have "dropWhile is_ws (rev (dropWhile is_ws v)) \<noteq> []"
    by (auto simp add: dropWhile_eq_Nil_conv)
  then show ?thesis
    by (simp add: trim_def)
qed

lemma filterItems_trim: "v \<noteq> [] \<Longrightarrow> filterItems v \<noteq> [] \<Longrightarrow> trim v \<noteq> []"
proof -
  assume v: "v \<noteq> []" and f: "filterItems v \<noteq> []"
  from f obtain item where i: "item \<in> set COMMON_ITEMS"
    and inc: "includes_str (toLowerCase item) (toLowerCase v)"
    by (auto simp add: filterItems_def filter_empty_conv)
  from v obtain c where c: "c \<in> set v"
    by (cases v) auto
  then have "lower_unit c \<in> set (toLowerCase v)"
    by (simp add: toLowerCase_def)
  with includes_str_set [OF inc] have "lower_unit c \<in> set (toLowerCase item)"
    by auto
  from common_items_letters [OF i this] have "\<not> is_ws c"
    using lower_letter_not_ws by simp
  with c show ?thesis
    by (rule trim_nonempty)
qed


lemma fresh_handleNameChange: "errors_fresh st \<Longrightarrow> errors_fresh (handleNameChange v st)"
  using filterItems_trim [of v]
  by (cases "v = []") (auto simp add: errors_fresh_def handleNameChange_def Let_def trim_def)

lemma fresh_clickSuggestion:
  "errors_fresh st \<Longrightarrow> panel_shown st \<Longrightarrow> errors_fresh (clickSuggestion item st)"
  by (auto simp add: errors_fresh_def clickSuggestion_def panel_shown_def)

lemma fresh_handleQuantityChange: "errors_fresh st \<Longrightarrow> errors_fresh (handleQuantityChange v st)"
  by (auto simp add: errors_fresh_def handleQuantityChange_def Let_def)

lemma fresh_handleThresholdChange: "errors_fresh st \<Longrightarrow> errors_fresh (handleThresholdChange v st)"
  by (auto simp add: errors_fresh_def handleThresholdChange_def Let_def)

lemma fresh_simple:
  "errors_fresh st \<Longrightarrow> errors_fresh (fst (onBlurName st))"
  "errors_fresh st \<Longrightarrow> errors_fresh (timerHide st)"
  "errors_fresh st \<Longrightarrow> errors_fresh (onFocusName st)"
  "errors_fresh st \<Longrightarrow> errors_fresh (onBlurQuantity st)"
  "errors_fresh st \<Longrightarrow> errors_fresh (onBlurThreshold st)"
  "errors_fresh st \<Longrightarrow> errors_fresh (st\<lparr>isLoading := b\<rparr>)"
  by (auto simp add: errors_fresh_def onBlurName_def timerHide_def onFocusName_def
      setSuggestions_def onBlurQuantity_def onBlurThreshold_def)

lemma fresh_enabled_no_errors:
  "errors_fresh st \<Longrightarrow> \<not> submit_disabled st \<Longrightarrow> errors st = no_errors"
  by (cases "errors st")
     (auto simp add: errors_fresh_def submit_disabled_def isValid_def js_and_def no_errors_def
        split: if_splits)


lemma fresh_submit_start:
  assumes "errors_fresh st" "\<not> submit_disabled st"
  shows "errors_fresh (fst (handleSubmit_start h st))"
proof -
  have v: "fst (validate st)"
    using assms(2) by (simp add: submit_disabled_def isValid_validate)
  have "errors_fresh (st\<lparr>touched := all_touched, errors := no_errors\<rparr>)"
    using assms(1) by (simp add: errors_fresh_def no_errors_def)
  then show ?thesis
    using fresh_simple(6) [of "st\<lparr>touched := all_touched, errors := no_errors\<rparr>" True]
    by (cases h) (simp_all add: handleSubmit_start_no_household [OF v] handleSubmit_start_call [OF v])
qed

lemma dispatch_fresh: "errors_fresh (view w) \<Longrightarrow> errors_fresh (view (dispatch e w))"
proof (cases e)
  case (CallSettles rejected thrown)
  assume "errors_fresh (view w)"
  with CallSettles handleSubmit_resume_state [of rejected thrown "view w"] show ?thesis
    by (simp add: split_beta fresh_simple)
qed (simp_all add: fresh_handleNameChange fresh_clickSuggestion fresh_handleQuantityChange
       fresh_handleThresholdChange fresh_simple fresh_submit_start split_beta)

lemma run_events_fresh: "errors_fresh (view w) \<Longrightarrow> errors_fresh (view (run_events evs w))"
  unfolding run_events_def
  by (induction evs arbitrary: w) (simp_all add: dispatch_fresh)

lemma init_page_fresh: "errors_fresh (view init_page)"
  by (simp add: errors_fresh_def init_page_def init_form_def)

lemma enabled_page_has_no_errors:
  "\<not> submit_disabled (view (run_events evs init_page)) \<Longrightarrow>
   errors (view (run_events evs init_page)) = no_errors"
  using run_events_fresh [OF init_page_fresh] by (rule fresh_enabled_no_errors)

lemma handleSubmit_no_household:
  "fst (validate st) \<Longrightarrow>
   handleSubmit None rejected thrown st =
     (st\<lparr>touched := all_touched, errors := no_errors\<rparr>,
      [PreventDefault, ToastError select_household_first], Normal)"
  by (simp add: handleSubmit_def handleSubmit_start_no_household)

text \<open>
  C3. A submit attempt reaches \<open>handleSubmit\<close> through the submit button, so in a state
  of the page in which the button is enabled; the three validations pass there. When no
  household is selected, the creation service is not called, the notification "Please
  select a household first" is shown, and the draft fields, the errors and the loading
  flag are left unchanged: the form differs from the one before in its touched flags
  only, and no call is in flight that was not before.
\<close>

theorem submit_without_household:
  assumes "w = run_events evs init_page" and "submit_enabled (view w)"
  shows "fst (validate (view w))
         \<and> trace (dispatch (ClickSubmit None) w) =
             trace w @ [PreventDefault, ToastError (str ''Please select a household first'')]
         \<and> service_calls (trace (dispatch (ClickSubmit None) w)) = service_calls (trace w)
         \<and> in_flight (dispatch (ClickSubmit None) w) = in_flight w
         \<and> name (view (dispatch (ClickSubmit None) w)) = name (view w)
         \<and> quantity (view (dispatch (ClickSubmit None) w)) = quantity (view w)
         \<and> lowThreshold (view (dispatch (ClickSubmit None) w)) = lowThreshold (view w)
         \<and> errors (view (dispatch (ClickSubmit None) w)) = errors (view w)
         \<and> isLoading (view (dispatch (ClickSubmit None) w)) = isLoading (view w)
         \<and> view (dispatch (ClickSubmit None) w) = (view w)\<lparr>touched := all_touched\<rparr>"
proof -
  from assms(2) have en: "\<not> submit_disabled (view w)"
    by (simp add: submit_enabled_def)
  then have v: "fst (validate (view w))"
    by (simp add: submit_disabled_def isValid_validate)
  have e: "errors (view w) = no_errors"
    using enabled_page_has_no_errors [of evs] en assms(1) by simp
  have same: "(view w)\<lparr>touched := all_touched, errors := no_errors\<rparr>
                = (view w)\<lparr>touched := all_touched\<rparr>"
    using e by (cases "view w") simp
  have d: "dispatch (ClickSubmit None) w =
             w\<lparr>view := (view w)\<lparr>touched := all_touched\<rparr>,
               trace := trace w @ [PreventDefault, ToastError select_household_first]\<rparr>"
    using en by (simp add: handleSubmit_start_no_household [OF v] same)
  show ?thesis
    unfolding d using v by (simp add: service_calls_def select_household_first_def)
qed

text \<open>
  C3 at the page in which "Milk", "2" and "1" have been typed: the button is enabled,
  and a submit with no household selected shows the notification and calls nothing.
\<close>

theorem submit_without_household_witness:
  "submit_enabled (view (run_events typed_milk init_page))
   \<and> trace (dispatch (ClickSubmit None) (run_events typed_milk init_page)) =
       [PreventDefault, ToastError (str ''Please select a household first'')]
   \<and> service_calls (trace (dispatch (ClickSubmit None) (run_events typed_milk init_page))) = []
   \<and> in_flight (dispatch (ClickSubmit None) (run_events typed_milk init_page)) = 0
   \<and> name (view (dispatch (ClickSubmit None) (run_events typed_milk init_page))) = str ''Milk''
   \<and> errors (view (dispatch (ClickSubmit None) (run_events typed_milk init_page))) = no_errors
   \<and> \<not> isLoading (view (dispatch (ClickSubmit None) (run_events typed_milk init_page)))"
proof -
  have b: "trace (run_events typed_milk init_page) = []"
    "in_flight (run_events typed_milk init_page) = 0"
    "name (view (run_events typed_milk init_page)) = str ''Milk''"
    "errors (view (run_events typed_milk init_page)) = no_errors"
    "\<not> isLoading (view (run_events typed_milk init_page))"
    unfolding typed_milk_page
    by (simp_all add: init_page_def milk_form_def init_form_def no_errors_def)
  from submit_without_household [OF refl typed_milk_enabled] b typed_milk_enabled
  show ?thesis
    by (simp add: service_calls_def)
qed

text \<open>
  C4. When the call to the creation service rejects with \<open>e\<close>, the error is logged,
  "Failed to add item" is shown, the promise of \<open>handleSubmit\<close> is fulfilled (the error
  does not reach the caller), and the draft fields are what they were. However the call
  settles, the loading flag is false afterwards. The first three conjuncts are about the
  part of \<open>handleSubmit\<close> that runs after the call, in whatever state the form is then;
  the last two are about a whole submission.
\<close>

theorem rejected_call_is_reported:
  "handleSubmit_resume (Some e) thrown st =
     (st\<lparr>isLoading := False\<rparr>,
      [ConsoleError (str ''APP:: AddItemForm:: Failed to add item:'') e,
       ToastError (str ''Failed to add item'')],
      Normal)
   \<and> fst (handleSubmit_resume rejected thrown st) = st\<lparr>isLoading := False\<rparr>
   \<and> snd (snd (handleSubmit_resume rejected thrown st)) = Normal
   \<and> (fst (validate st) \<longrightarrow>
        handleSubmit (Some h) (Some e) thrown st =
          (st\<lparr>touched := all_touched, errors := no_errors, isLoading := False\<rparr>,
           [PreventDefault, CreateInventoryItem (make_payload h st),
            ConsoleError (str ''APP:: AddItemForm:: Failed to add item:'') e,
            ToastError (str ''Failed to add item'')],
           Normal))
   \<and> (fst (validate st) \<longrightarrow>
        \<not> isLoading (fst (handleSubmit (Some h) rejected thrown st)))"
proof -
  have a: "fst (validate st) \<Longrightarrow>
        handleSubmit (Some h) (Some e) thrown st =
          (st\<lparr>touched := all_touched, errors := no_errors, isLoading := False\<rparr>,
           [PreventDefault, CreateInventoryItem (make_payload h st),
            ConsoleError log_prefix e, ToastError failed_to_add],
           Normal)"
    by (simp add: handleSubmit_def handleSubmit_start_call handleSubmit_resume_rejected)
  have b: "fst (validate st) \<Longrightarrow> \<not> isLoading (fst (handleSubmit (Some h) rejected thrown st))"
    using handleSubmit_resume_state
      [of rejected thrown "st\<lparr>touched := all_touched, errors := no_errors, isLoading := True\<rparr>"]
    by (simp add: handleSubmit_def handleSubmit_start_call split_beta)
  from a b show ?thesis
    using handleSubmit_resume_rejected [of e thrown st]
      handleSubmit_resume_state [of rejected thrown st]
    by (simp add: log_prefix_def failed_to_add_def)
qed

text \<open>C4 at the form that holds "Milk", "2" and "1", with the household "H1".\<close>

theorem rejected_call_is_reported_witness:
  "handleSubmit (Some h1) (Some (JsError (str ''offline''))) None milk_form =
     (milk_form\<lparr>touched := all_touched, errors := no_errors, isLoading := False\<rparr>,
      [PreventDefault, CreateInventoryItem milk_payload,
       ConsoleError (str ''APP:: AddItemForm:: Failed to add item:'') (JsError (str ''offline'')),
       ToastError (str ''Failed to add item'')],
      Normal)
   \<and> \<not> isLoading (fst (handleSubmit (Some h1) None None milk_form))"
proof -
  have m: "name milk_form = str ''Milk''" "quantity milk_form = str ''2''"
    "lowThreshold milk_form = str ''1''"
    by (simp_all add: milk_form_def)
  have v: "fst (validate milk_form)"
    by (rule validate_milk [OF m])
  have p: "make_payload h1 milk_form = milk_payload"
    by (rule payload_milk [OF m])
  from rejected_call_is_reported [of "JsError (str ''offline'')" None milk_form None h1] v p
    rejected_call_is_reported [of "JsError (str ''offline'')" None milk_form None h1]
  show ?thesis by simp
qed

lemma rendered_error_name:
  "touched_name (touched st) \<Longrightarrow> errors_name (errors st) \<noteq> [] \<Longrightarrow>
   rendered_error FName st = Some (errors_name (errors st))"
  by (simp add: rendered_error_def js_and_def)

text \<open>
  C5. A submit with a name that is empty after trimming marks the three fields touched,
  sets the name error to exactly "Item name is required.", which is then rendered, full
  validation returns false, and the creation service is not called.
\<close>

theorem submit_blank_name:
  assumes "trim (name st) = []"
  shows "touched (fst (handleSubmit h rejected thrown st)) = all_touched
         \<and> errors_name (errors (fst (handleSubmit h rejected thrown st)))
             = str ''Item name is required.''
         \<and> rendered_error FName (fst (handleSubmit h rejected thrown st))
             = Some (str ''Item name is required.'')
         \<and> \<not> fst (validate st)
         \<and> service_calls (fst (snd (handleSubmit h rejected thrown st))) = []
         \<and> name (fst (handleSubmit h rejected thrown st)) = name st"
proof -
  have nv: "\<not> fst (validate st)"
    using validate_blank_name [OF assms] by simp
  have blank': "trim (name (st\<lparr>touched := all_touched\<rparr>)) = []"
    using assms by simp
  have r: "handleSubmit h rejected thrown st =
             (snd (validate (st\<lparr>touched := all_touched\<rparr>)), [PreventDefault], Normal)"
    by (simp add: handleSubmit_def handleSubmit_start_invalid [OF nv])
  have t: "touched (snd (validate (st\<lparr>touched := all_touched\<rparr>))) = all_touched"
    using validate_keeps [of "st\<lparr>touched := all_touched\<rparr>"] by simp
  have n: "name (snd (validate (st\<lparr>touched := all_touched\<rparr>))) = name st"
    using validate_keeps [of "st\<lparr>touched := all_touched\<rparr>"] by simp
  have e: "errors_name (errors (snd (validate (st\<lparr>touched := all_touched\<rparr>)))) = name_required"
    using validate_blank_name [OF blank'] by simp
  have d: "rendered_error FName (snd (validate (st\<lparr>touched := all_touched\<rparr>))) = Some name_required"
    using rendered_error_name [of "snd (validate (st\<lparr>touched := all_touched\<rparr>))"] t e
    by (simp add: all_touched_def)
  from r t n e d nv show ?thesis
    by (simp add: service_calls_def name_required_def)
qed

text \<open>C5 at the empty form, and at a name of three spaces.\<close>

theorem submit_blank_name_witness:
  "rendered_error FName (fst (handleSubmit (Some h1) None None init_form))
     = Some (str ''Item name is required.'')
   \<and> service_calls (fst (snd (handleSubmit (Some h1) None None init_form))) = []
   \<and> rendered_error FName
        (fst (handleSubmit (Some h1) None None (init_form\<lparr>name := str ''   ''\<rparr>)))
     = Some (str ''Item name is required.'')"
proof -
  have a: "trim (name init_form) = []"
    by (simp add: init_form_def trim_def)
  have b: "trim (name (init_form\<lparr>name := str ''   ''\<rparr>)) = []"
    by (simp add: js_defs)
  from submit_blank_name [OF a, of "Some h1" None None]
    submit_blank_name [OF b, of "Some h1" None None]
  show ?thesis by simp
qed


section \<open>Blur and focus of the name field\<close>

text \<open>
  The blur handler marks the name touched and leaves the panel as it is; the panel is
  closed by the timer callback that the handler schedules, 200 milliseconds later.
\<close>

lemma onBlurName_defers_hide:
  "touched_name (touched (fst (onBlurName st)))
   \<and> showSuggestions (fst (onBlurName st)) = showSuggestions st
   \<and> snd (onBlurName st) = [SetTimeoutHide 200]
   \<and> \<not> showSuggestions (timerHide st')"
  by (simp add: onBlurName_def timerHide_def)


lemma blurred_Mi_page:
  "run_events blurred_Mi init_page =
     \<lparr>view = init_form\<lparr>name := str ''Mi'', suggestions := [str ''Milk''],
               showSuggestions := True,
               touched := \<lparr>touched_name = True, touched_quantity = False,
                           touched_threshold = False\<rparr>\<rparr>,
      in_flight = 0, timers = 1, trace = [SetTimeoutHide 200]\<rparr>"
proof -
  have f: "filterItems (str ''Mi'') = [str ''Milk'']"
    by (simp add: filterItems_def COMMON_ITEMS_def js_defs)
  show ?thesis
    by (simp add: run_events_def blurred_Mi_def init_page_def handleNameChange_def
        onBlurName_def Let_def f init_form_def)
      (simp add: str_def)
qed

text \<open>
  C9, as the code has it. The blur handler marks the name touched, leaves the name, the
  suggestions and the panel as they are, and sets a timer of 200 milliseconds; the panel
  is closed when that timer fires, not before. A click on a suggestion that is handled
  before the timer fires sets the name to the clicked value, and the timer leaves it so.
  A click that comes after the timer has fired finds no panel and is not handled:
  nothing in the code makes the click come first.
\<close>

theorem blur_defers_hide:
  "touched_name (touched (view (dispatch BlurName w)))
   \<and> showSuggestions (view (dispatch BlurName w)) = showSuggestions (view w)
   \<and> suggestions (view (dispatch BlurName w)) = suggestions (view w)
   \<and> name (view (dispatch BlurName w)) = name (view w)
   \<and> trace (dispatch BlurName w) = trace w @ [SetTimeoutHide 200]
   \<and> \<not> showSuggestions (view (dispatch TimerFires (dispatch BlurName w)))
   \<and> (panel_shown (view w) \<and> item \<in> set (suggestions (view w)) \<longrightarrow>
        name (view (dispatch (ClickSuggestion item) (dispatch BlurName w))) = item
        \<and> name (view (dispatch TimerFires (dispatch (ClickSuggestion item)
                   (dispatch BlurName w)))) = item)
   \<and> dispatch (ClickSuggestion item) (dispatch TimerFires (dispatch BlurName w))
       = dispatch TimerFires (dispatch BlurName w)"
  by (simp add: onBlurName_def timerHide_def clickSuggestion_def panel_shown_def)

text \<open>
  C9 after "Mi" has been typed and the field left: the panel is still open over "Milk",
  and a click on it before the timer fires sets the name to "Milk".
\<close>

theorem blur_defers_hide_witness:
  "panel_shown (view (run_events blurred_Mi init_page))
   \<and> touched_name (touched (view (run_events blurred_Mi init_page)))
   \<and> name (view (dispatch TimerFires (dispatch (ClickSuggestion (str ''Milk''))
              (run_events blurred_Mi init_page)))) = str ''Milk''"
proof -
  let ?w = "run_events [ChangeName (str ''Mi'')] init_page"
  have f: "filterItems (str ''Mi'') = [str ''Milk'']"
    by (simp add: filterItems_def COMMON_ITEMS_def js_defs)
  have w: "view ?w = init_form\<lparr>name := str ''Mi'', suggestions := [str ''Milk''],
                       showSuggestions := True\<rparr>"
    by (simp add: run_events_def init_page_def handleNameChange_def Let_def f init_form_def)
      (simp add: str_def)
  have b: "run_events blurred_Mi init_page = dispatch BlurName ?w"
    by (simp add: run_events_def blurred_Mi_def)
  have p: "panel_shown (view ?w)" "str ''Milk'' \<in> set (suggestions (view ?w))"
    by (simp_all add: w panel_shown_def)
  note th = blur_defers_hide [of ?w "str ''Milk''"]
  have t: "touched_name (touched (view (dispatch BlurName ?w)))"
    using th by blast
  have s1: "showSuggestions (view (dispatch BlurName ?w)) = showSuggestions (view ?w)"
    using th by blast
  have s2: "suggestions (view (dispatch BlurName ?w)) = suggestions (view ?w)"
    using th by blast
  have c: "name (view (dispatch TimerFires (dispatch (ClickSuggestion (str ''Milk''))
              (dispatch BlurName ?w)))) = str ''Milk''"
    using th p by blast
  have ps: "panel_shown (view (dispatch BlurName ?w))"
    using p(1) s1 s2 by (simp add: panel_shown_def del: dispatch.simps)
  from t c ps show ?thesis
    unfolding b by (simp del: dispatch.simps)
qed

text \<open>
  C9 as the specification states it fails when the timer fires first: "Mi" is typed and
  the field is left, with the panel open over "Milk"; the timer fires; the click on
  "Milk" then finds no panel, and the name is still "Mi".
\<close>

theorem click_after_timer_counterexample:
  "panel_shown (view (run_events blurred_Mi init_page))
   \<and> str ''Milk'' \<in> set (suggestions (view (run_events blurred_Mi init_page)))
   \<and> name (view (run_events late_click init_page)) = str ''Mi''
   \<and> name (view (run_events late_click init_page)) \<noteq> str ''Milk''"
proof -
  have l: "run_events late_click init_page =
            dispatch (ClickSuggestion (str ''Milk''))
              (dispatch TimerFires (run_events blurred_Mi init_page))"
    by (simp add: run_events_def late_click_def)
  have n: "str ''Mi'' \<noteq> str ''Milk''"
    by (simp add: str_def)
  show ?thesis
    unfolding l blurred_Mi_page using n
    by (simp add: panel_shown_def timerHide_def)
qed

lemma onFocusName_eq:
  "onFocusName st = (if name st = [] then st else st\<lparr>suggestions := filterItems (name st)\<rparr>)"
  by (simp add: onFocusName_def setSuggestions_def)

lemma onFocusName_showSuggestions: "showSuggestions (onFocusName st) = showSuggestions st"
  by (simp add: onFocusName_eq)

lemma filterItems_Mi: "filterItems (str ''Mi'') = [str ''Milk'']"
  by (simp add: filterItems_def COMMON_ITEMS_def js_defs)

lemma closed_panel_form_eq:
  "closed_panel_form =
     init_form\<lparr>name := str ''Mi'', suggestions := [str ''Milk''],
       touched := \<lparr>touched_name = True, touched_quantity = False, touched_threshold = False\<rparr>\<rparr>"
  by (simp add: closed_panel_form_def timerHide_def onBlurName_def handleNameChange_def
      Let_def filterItems_Mi init_form_def)
    (simp add: str_def)

lemma closed_panel_form_reached:
  "view (run_events [ChangeName (str ''Mi''), BlurName, TimerFires] init_page) = closed_panel_form"
  by (simp add: run_events_def closed_panel_form_def init_page_def split_beta)

text \<open>
  C6 against the code. The name "Mi" is typed, the field is left and the timer closes the
  panel. On the next focus the suggestion list is recomputed to "Milk", and the panel
  stays closed: \<open>setSuggestions\<close> returns \<open>undefined\<close>, so the \<open>&&\<close> chain of line 104
  never reaches \<open>setShowSuggestions(true)\<close>.
\<close>

theorem focus_leaves_panel_closed:
  "name closed_panel_form = str ''Mi''
   \<and> suggestions (onFocusName closed_panel_form) = [str ''Milk'']
   \<and> \<not> showSuggestions (onFocusName closed_panel_form)
   \<and> \<not> panel_shown (onFocusName closed_panel_form)"
proof -
  have "str ''Mi'' \<noteq> []"
    by (simp add: str_def)
  then show ?thesis
    by (simp add: onFocusName_eq closed_panel_form_eq filterItems_Mi panel_shown_def
        init_form_def)
qed

section \<open>Inline messages\<close>

text \<open>
  C7. In every state of the form, reachable or not, and for each of the three fields:
  when an inline message is rendered for the field, the field is touched (and the
  message is the recorded error, which is not empty).
\<close>

theorem error_rendered_only_when_touched:
  "rendered_error f st = Some m \<Longrightarrow> touched_of f st \<and> m = error_of f st \<and> m \<noteq> []"
  by (auto simp add: rendered_error_def js_and_def split: if_splits)

lemma parseInt_minus_1: "parseInt (str ''-1'') = Num (- 1)"
  by (simp add: js_defs)

lemma negative_quantity_page:
  "view (run_events [BlurQuantity, ChangeQuantity (str ''-1'')] init_page) =
     init_form\<lparr>quantity := str ''-1'',
       errors := \<lparr>errors_name = [], errors_quantity = quantity_invalid, errors_threshold = []\<rparr>,
       touched := \<lparr>touched_name = False, touched_quantity = True, touched_threshold = False\<rparr>\<rparr>"
  by (simp add: run_events_def init_page_def onBlurQuantity_def handleQuantityChange_def
      init_form_def Let_def parseInt_minus_1 js_and_def)

text \<open>
  C7 at a state of the page: the quantity field is left, then holds "-1", and its message
  is rendered.
\<close>

theorem error_rendered_only_when_touched_witness:
  "rendered_error FQuantity (view (run_events [BlurQuantity, ChangeQuantity (str ''-1'')] init_page))
     = Some quantity_invalid
   \<and> touched_of FQuantity (view (run_events [BlurQuantity, ChangeQuantity (str ''-1'')] init_page))"
proof -
  have r: "rendered_error FQuantity
             (view (run_events [BlurQuantity, ChangeQuantity (str ''-1'')] init_page))
           = Some quantity_invalid"
    by (simp add: negative_quantity_page rendered_error_def js_and_def init_form_def)
  from error_rendered_only_when_touched [OF r] r show ?thesis by simp
qed


section \<open>Submissions in flight\<close>

lemma isLoading_handlers:
  "isLoading (handleNameChange v st) = isLoading st"
  "isLoading (fst (onBlurName st)) = isLoading st"
  "isLoading (timerHide st) = isLoading st"
  "isLoading (onFocusName st) = isLoading st"
  "isLoading (clickSuggestion v st) = isLoading st"
  "isLoading (handleQuantityChange v st) = isLoading st"
  "isLoading (onBlurQuantity st) = isLoading st"
  "isLoading (handleThresholdChange v st) = isLoading st"
  "isLoading (onBlurThreshold st) = isLoading st"
  by (simp_all add: handleNameChange_def onBlurName_def timerHide_def onFocusName_eq
      clickSuggestion_def handleQuantityChange_def onBlurQuantity_def
      handleThresholdChange_def onBlurThreshold_def Let_def)

lemma handleSubmit_start_loading:
  "\<not> isLoading st \<Longrightarrow>
   isLoading (fst (handleSubmit_start h st)) = (snd (snd (handleSubmit_start h st)) \<noteq> None)"
  using validate_keeps [of "st\<lparr>touched := all_touched\<rparr>"]
  by (cases h) (simp_all add: handleSubmit_start_def all_touched_def split_beta Let_def)

lemma loading_disables: "isLoading st \<Longrightarrow> submit_disabled st"
  by (simp add: submit_disabled_def)

lemma dispatch_in_flight_ok: "in_flight_ok w \<Longrightarrow> in_flight_ok (dispatch e w)"
proof (cases e)
  case (ClickSubmit h)
  assume ok: "in_flight_ok w"
  show ?thesis
  proof (cases "submit_disabled (view w)")
    case True
    with ok ClickSubmit show ?thesis by simp
  next
    case False
    then have nl: "\<not> isLoading (view w)"
      using loading_disables by blast
    with ok have z: "in_flight w = 0"
      by (simp add: in_flight_ok_def)
    from handleSubmit_start_loading [OF nl, of h] z False ClickSubmit show ?thesis
      by (cases "snd (snd (handleSubmit_start h (view w)))")
         (simp_all add: in_flight_ok_def split_beta)
  qed
next
  case (CallSettles rejected thrown)
  assume ok: "in_flight_ok w"
  show ?thesis
  proof (cases "in_flight w = 0")
    case True
    with ok CallSettles show ?thesis by simp
  next
    case False
    with ok have "in_flight w = 1"
      by (simp add: in_flight_ok_def split: if_splits)
    with CallSettles handleSubmit_resume_state [of rejected thrown "view w"] show ?thesis
      by (simp add: in_flight_ok_def split_beta)
  qed
qed (simp_all add: in_flight_ok_def isLoading_handlers split_beta)

lemma run_events_in_flight_ok: "in_flight_ok w \<Longrightarrow> in_flight_ok (run_events evs w)"
  unfolding run_events_def
  by (induction evs arbitrary: w) (simp_all add: dispatch_in_flight_ok)

lemma init_page_in_flight_ok: "in_flight_ok init_page"
  by (simp add: in_flight_ok_def init_page_def init_form_def)

text \<open>
  C8. In every state in which the loading flag is true the submit button is disabled, and
  a click on it changes nothing. In every state that the page reaches, the number of
  calls in flight is 1 when the loading flag is true and 0 otherwise: there are never
  two calls in flight.
\<close>

theorem loading_disables_submit:
  "(isLoading st \<longrightarrow> submit_disabled st)
   \<and> (isLoading (view w) \<longrightarrow> dispatch (ClickSubmit h) w = w)
   \<and> in_flight (run_events evs init_page)
       = (if isLoading (view (run_events evs init_page)) then 1 else 0)
   \<and> in_flight (run_events evs init_page) \<le> 1"
proof -
  have "in_flight_ok (run_events evs init_page)"
    by (rule run_events_in_flight_ok [OF init_page_in_flight_ok])
  then show ?thesis
    by (simp add: in_flight_ok_def loading_disables)
qed


lemma double_click_page:
  "run_events double_click init_page =
     \<lparr>view = milk_form\<lparr>suggestions := [str ''Milk''], showSuggestions := True,
               touched := all_touched, errors := no_errors, isLoading := True\<rparr>,
      in_flight = 1, timers = 0,
      trace = [PreventDefault, CreateInventoryItem milk_payload]\<rparr>"
proof -
  let ?st = "milk_form\<lparr>suggestions := [str ''Milk''], showSuggestions := True\<rparr>"
  have m: "name ?st = str ''Milk''" "quantity ?st = str ''2''" "lowThreshold ?st = str ''1''"
    by (simp_all add: milk_form_def)
  have en: "\<not> submit_disabled ?st"
    using spec_enabled_milk
    by (simp add: submit_disabled_def isValid_spec spec_submit_enabled_def)
      (simp add: milk_form_def init_form_def)
  have start: "handleSubmit_start (Some h1) ?st =
     (?st\<lparr>touched := all_touched, errors := no_errors, isLoading := True\<rparr>,
      [PreventDefault, CreateInventoryItem milk_payload], Some milk_payload)"
    using handleSubmit_start_call [OF validate_milk [OF m], of h1] payload_milk [OF m]
    by simp
  have split: "run_events double_click init_page =
     dispatch (ClickSubmit (Some h1)) (dispatch (ClickSubmit (Some h1))
       (run_events typed_milk init_page))"
    by (simp add: run_events_def double_click_def)
  show ?thesis
    unfolding split typed_milk_page
    using en by (simp add: start init_page_def submit_disabled_def)
qed

text \<open>
  C8 after two clicks on the submit button of a valid form: the second click finds the
  button disabled, and the creation service has been called once.
\<close>

theorem loading_disables_submit_witness:
  "isLoading (view (run_events double_click init_page))
   \<and> submit_disabled (view (run_events double_click init_page))
   \<and> in_flight (run_events double_click init_page) = 1
   \<and> service_calls (trace (run_events double_click init_page)) = [milk_payload]"
proof -
  have l: "isLoading (view (run_events double_click init_page))"
    by (simp add: double_click_page)
  have c: "service_calls (trace (run_events double_click init_page)) = [milk_payload]"
    by (simp add: double_click_page service_calls_def)
  from loading_disables_submit
    [of "view (run_events double_click init_page)" "run_events double_click init_page" None
        double_click] l c
  show ?thesis by simp
qed

section \<open>Full validation against the submit button\<close>

text \<open>
  C10. The strings "abc" and "   " are not empty and \<open>parseInt\<close> returns \<open>NaN\<close> for them.
  With the quantity "abc" (the other fields valid), and with the threshold "   " (the
  other fields valid), full validation records no error for that field and returns true,
  while \<open>isValid\<close> is falsy and the submit button is disabled. In the other direction,
  whenever \<open>isValid\<close> is truthy full validation returns true: full validation is strictly
  weaker than the submit-enabled predicate.
\<close>

theorem validate_weaker_than_isValid:
  "parseInt (str ''abc'') = NaN \<and> parseInt (str ''   '') = NaN
   \<and> fst (validate (milk_form\<lparr>quantity := str ''abc''\<rparr>))
   \<and> errors_quantity (errors (snd (validate (milk_form\<lparr>quantity := str ''abc''\<rparr>)))) = []
   \<and> \<not> truthy (isValid (milk_form\<lparr>quantity := str ''abc''\<rparr>))
   \<and> \<not> submit_enabled (milk_form\<lparr>quantity := str ''abc''\<rparr>)
   \<and> fst (validate (milk_form\<lparr>lowThreshold := str ''   ''\<rparr>))
   \<and> errors_threshold (errors (snd (validate (milk_form\<lparr>lowThreshold := str ''   ''\<rparr>)))) = []
   \<and> \<not> truthy (isValid (milk_form\<lparr>lowThreshold := str ''   ''\<rparr>))
   \<and> \<not> submit_enabled (milk_form\<lparr>lowThreshold := str ''   ''\<rparr>)
   \<and> (truthy (isValid st) \<longrightarrow> fst (validate st))"
proof -
  have p: "parseInt (str ''abc'') = NaN" "parseInt (str ''   '') = NaN"
    by (simp_all add: js_defs)
  have n: "str ''abc'' \<noteq> []" "str ''   '' \<noteq> []" "str ''2'' \<noteq> []" "str ''1'' \<noteq> []"
    by (simp_all add: str_def)
  have vq: "fst (validate (milk_form\<lparr>quantity := str ''abc''\<rparr>))"
    by (simp add: validate_ok_iff milk_form_def p n parseInt_1 trim_Milk str_Milk_ne)
  have vt: "fst (validate (milk_form\<lparr>lowThreshold := str ''   ''\<rparr>))"
    by (simp add: validate_ok_iff milk_form_def p n parseInt_2 trim_Milk str_Milk_ne)
  have iq: "\<not> truthy (isValid (milk_form\<lparr>quantity := str ''abc''\<rparr>))"
    by (simp add: truthy_isValid p)
  have it: "\<not> truthy (isValid (milk_form\<lparr>lowThreshold := str ''   ''\<rparr>))"
    by (simp add: truthy_isValid p)
  from p vq vt iq it validate_ok_errors [OF vq] validate_ok_errors [OF vt] isValid_validate [of st]
  show ?thesis
    by (simp add: submit_enabled_def submit_disabled_def no_errors_def)
qed

text \<open>C10, the second direction, at the form that holds "Milk", "2" and "1".\<close>

theorem validate_weaker_than_isValid_witness:
  "truthy (isValid milk_form) \<and> fst (validate milk_form)"
proof -
  have t: "truthy (isValid milk_form)"
    using spec_enabled_milk by (simp add: isValid_spec)
  from validate_weaker_than_isValid [of milk_form] t show ?thesis by simp
qed


end
